theory Spec2Isabelle
  imports Main "HOL-Library.Word"
begin

unbundle bit_operations_syntax

section \<open>Strings and bytes\<close>

text \<open>
  A Go \<open>string\<close> is a sequence of bytes and so is a \<open>[]byte\<close>; a HOL \<open>char\<close> is one
  byte. The conversion \<open>[]byte(s)\<close> copies the bytes.
\<close>

type_synonym bytes = "char list"

definition bytes_of :: "string \<Rightarrow> bytes" where
  "bytes_of s = s"

section \<open>The regular expression of the router\<close>

text \<open>
  The syntax tree of package \<open>regexp/syntax\<close>, for the operators that the pattern of
  \<open>validPath\<close> uses: a literal string, a character class given by its ranges,
  concatenation, alternation, one-or-more repetition, a numbered capture group, and the
  two anchors \<open>^\<close> and \<open>$\<close>, which without the flag \<open>m\<close> stand for the beginning
  and the end of the text.
\<close>

datatype regex =
    Literal string
  | CharClass "(char \<times> char) list"
  | Concat regex regex
  | Alternate regex regex
  | Plus regex
  | Capture nat regex
  | BeginText
  | EndText

text \<open>
  A class matches a character whose code lies in one of its ranges. The text is matched
  byte by byte: every byte of a multi-byte UTF-8 sequence is at least \<open>0x80\<close> and so
  lies in no range of ASCII characters.
\<close>

definition in_class :: "(char \<times> char) list \<Rightarrow> char \<Rightarrow> bool" where
  "in_class rs x =
     list_ex (\<lambda>(lo, hi). (of_char lo :: nat) \<le> of_char x \<and> (of_char x :: nat) \<le> of_char hi) rs"

text \<open>
  A cursor is an offset into the text together with the text from that offset on. The
  captures map a group number to the offsets where the group's match begins and ends.
\<close>

type_synonym cursor = "nat \<times> string"
type_synonym captures = "nat \<rightharpoonup> nat \<times> nat"

text \<open>
  \<open>matches re cur caps\<close> lists every way in which \<open>re\<close> matches at the cursor, in
  the order of preference of Go's (leftmost-first) matching: the first alternative before
  the second, more repetitions before fewer. The head of the list is the match that
  \<open>regexp\<close> reports.
\<close>

fun matches :: "regex \<Rightarrow> cursor \<Rightarrow> captures \<Rightarrow> (cursor \<times> captures) list" where
  "matches (Literal w) (i, s) c =
     (if take (length w) s = w then [((i + length w, drop (length w) s), c)] else [])"
| "matches (CharClass rs) (i, s) c =
     (case s of [] \<Rightarrow> [] | x # xs \<Rightarrow> if in_class rs x then [((Suc i, xs), c)] else [])"
| "matches (Concat a b) cur c =
     concat (map (\<lambda>(cur', c'). matches b cur' c') (matches a cur c))"
| "matches (Alternate a b) cur c = matches a cur c @ matches b cur c"
| "matches (Plus a) (i, s) c =
     concat (map (\<lambda>((j, t), c').
                    (if length t < length s then matches (Plus a) (j, t) c' else [])
                    @ [((j, t), c')])
                 (matches a (i, s) c))"
| "matches (Capture n a) (i, s) c =
     map (\<lambda>((j, t), c'). ((j, t), c'(n \<mapsto> (i, j)))) (matches a (i, s) c)"
| "matches BeginText (i, s) c = (if i = 0 then [((i, s), c)] else [])"
| "matches EndText (i, s) c = (if s = [] then [((i, s), c)] else [])"

text \<open>The number of capture groups of an expression (\<open>Regexp.NumSubexp\<close>).\<close>

fun NumSubexp :: "regex \<Rightarrow> nat" where
  "NumSubexp (Concat a b) = NumSubexp a + NumSubexp b"
| "NumSubexp (Alternate a b) = NumSubexp a + NumSubexp b"
| "NumSubexp (Plus a) = NumSubexp a"
| "NumSubexp (Capture n a) = Suc (NumSubexp a)"
| "NumSubexp _ = 0"

text \<open>
  The leftmost match: the search tries the offsets of the text from left to right and
  stops at the first offset where the expression matches.
\<close>

fun leftmost :: "regex \<Rightarrow> nat \<Rightarrow> string \<Rightarrow> (nat \<times> nat \<times> captures) option" where
  "leftmost re i s =
     (case matches re (i, s) Map.empty of
        ((j, _), c) # _ \<Rightarrow> Some (i, j, c)
      | [] \<Rightarrow> (case s of [] \<Rightarrow> None | _ # s' \<Rightarrow> leftmost re (Suc i) s'))"

definition substring :: "string \<Rightarrow> (nat \<times> nat) option \<Rightarrow> string" where
  "substring s g = (case g of None \<Rightarrow> [] | Some (a, b) \<Rightarrow> take (b - a) (drop a s))"

text \<open>
  \<open>Regexp.FindStringSubmatch\<close>: \<open>nil\<close> (here \<open>None\<close>) when the text has no match,
  otherwise the text of the leftmost match followed by the text of each capture group, the
  empty string for a group that took no part in the match.
\<close>

definition FindStringSubmatch :: "regex \<Rightarrow> string \<Rightarrow> string list option" where
  "FindStringSubmatch re s =
     (case leftmost re 0 s of
        None \<Rightarrow> None
      | Some (i, j, c) \<Rightarrow>
          Some (map (substring s) (Some (i, j) # map c [1 ..< Suc (NumSubexp re)])))"

text \<open>
  \<open>var validPath = regexp.MustCompile("^/(edit|save|view)/([a-zA-Z0-9]+)$")\<close>: the
  pattern is well formed, so \<open>MustCompile\<close> does not panic, and this is its syntax tree.
\<close>

definition validPath :: regex where
  "validPath =
     Concat BeginText
       (Concat (Literal ''/'')
         (Concat (Capture 1 (Alternate (Literal ''edit'')
                               (Alternate (Literal ''save'') (Literal ''view''))))
           (Concat (Literal ''/'')
             (Concat (Capture 2 (Plus (CharClass
                        [(CHR ''a'', CHR ''z''), (CHR ''A'', CHR ''Z''), (CHR ''0'', CHR ''9'')])))
               EndText))))"

section \<open>Pages\<close>

text \<open>\<open>type Page struct { Title string; Body []byte }\<close>\<close>

record Page =
  Title :: string
  Body :: bytes

section \<open>The file system, as package \<open>os\<close> presents it\<close>

text \<open>
  A file system without links: a node is a directory or a regular file with its content
  and its permission bits, and is named by the list of components of its absolute path.
  The state of the process adds the working directory, against which relative names
  are resolved, and the umask. Access rights are not checked (the process may read and
  write what exists), and a device never fails in the middle of a write.
\<close>

datatype errno = ENOENT | ENOTDIR | EISDIR | EINVAL

type_synonym FileMode = "32 word"

datatype node = Dir | File bytes FileMode

type_synonym path = "string list"

record filesystem =
  cwd :: path
  umask :: FileMode
  nodes :: "path \<rightharpoonup> node"

text \<open>\<open>*fs.PathError\<close> and its method \<open>Error()\<close>.\<close>

datatype PathError = PathError string string errno

fun errno_text :: "errno \<Rightarrow> string" where
  "errno_text ENOENT = ''no such file or directory''"
| "errno_text ENOTDIR = ''not a directory''"
| "errno_text EISDIR = ''is a directory''"
| "errno_text EINVAL = ''invalid argument''"

fun PathError_Error :: "PathError \<Rightarrow> string" where
  "PathError_Error (PathError op name e) = op @ '' '' @ name @ '': '' @ errno_text e"

text \<open>The components of a name: the parts between the slashes.\<close>

fun split_path :: "string \<Rightarrow> string list" where
  "split_path [] = [[]]"
| "split_path (x # xs) =
     (if x = CHR ''/'' then [] # split_path xs
      else (case split_path xs of [] \<Rightarrow> [[x]] | c # cs \<Rightarrow> (x # c) # cs))"

text \<open>
  Path resolution walks the components from a directory: an empty component and \<open>.\<close>
  stay, \<open>..\<close> goes to the parent (the root is its own parent), a name goes to the child.
  Every directory the walk passes through has to exist and be a directory.
\<close>

fun walk :: "(path \<rightharpoonup> node) \<Rightarrow> path \<Rightarrow> string list \<Rightarrow> errno + path" where
  "walk ns dir [] = Inr dir"
| "walk ns dir (c # cs) =
     (case ns dir of
        None \<Rightarrow> Inl ENOENT
      | Some (File _ _) \<Rightarrow> Inl ENOTDIR
      | Some Dir \<Rightarrow>
          if c = [] \<or> c = ''.'' then walk ns dir cs
          else if c = ''..'' then walk ns (butlast dir) cs
          else walk ns (dir @ [c]) cs)"

definition resolve :: "filesystem \<Rightarrow> string \<Rightarrow> errno + path" where
  "resolve fs name =
     (if CHR 0x00 \<in> set name then Inl EINVAL
      else if name = [] then Inl ENOENT
      else walk (nodes fs) (if hd name = CHR ''/'' then [] else cwd fs) (split_path name))"

text \<open>
  \<open>os.WriteFile(name, data, perm)\<close>: "WriteFile writes data to the named file, creating
  it if necessary. If the file does not exist, WriteFile creates it with permissions perm
  (before umask); otherwise WriteFile truncates it before writing, without changing
  permissions." The result is the error (\<open>None\<close> for \<open>nil\<close>) and the file system
  afterwards.
\<close>

definition WriteFile ::
  "string \<Rightarrow> bytes \<Rightarrow> FileMode \<Rightarrow> filesystem \<Rightarrow> PathError option \<times> filesystem" where
  "WriteFile name data perm fs =
     (case resolve fs name of
        Inl e \<Rightarrow> (Some (PathError ''open'' name e), fs)
      | Inr p \<Rightarrow>
          (case nodes fs p of
             Some Dir \<Rightarrow> (Some (PathError ''open'' name EISDIR), fs)
           | Some (File old m) \<Rightarrow> (None, fs\<lparr>nodes := (nodes fs)(p \<mapsto> File data m)\<rparr>)
           | None \<Rightarrow>
               if last (split_path name) \<in> {[], ''.'', ''..''}
               then (Some (PathError ''open'' name EISDIR), fs)
               else (None, fs\<lparr>nodes := (nodes fs)(p \<mapsto> File data (perm AND NOT (umask fs)))\<rparr>)))"

text \<open>\<open>os.ReadFile(name)\<close>: the content of the named file, or the error.\<close>

definition ReadFile :: "string \<Rightarrow> filesystem \<Rightarrow> PathError + bytes" where
  "ReadFile name fs =
     (case resolve fs name of
        Inl e \<Rightarrow> Inl (PathError ''open'' name e)
      | Inr p \<Rightarrow>
          (case nodes fs p of
             None \<Rightarrow> Inl (PathError ''open'' name ENOENT)
           | Some Dir \<Rightarrow> Inl (PathError ''read'' name EISDIR)
           | Some (File b m) \<Rightarrow> Inr b))"

section \<open>Saving and loading a page\<close>

text \<open>
  \<^verbatim>\<open>func (p *Page) save() error {
	filename := p.Title + ".txt"
	return os.WriteFile("data/"+filename, p.Body, 0600)
}\<close>
  The octal constant \<open>0600\<close> is \<open>384\<close>.
\<close>

definition save :: "Page \<Rightarrow> filesystem \<Rightarrow> PathError option \<times> filesystem" where
  "save p fs =
     (let filename = Title p @ ''.txt''
      in WriteFile (''data/'' @ filename) (Body p) 384 fs)"

text \<open>
  \<^verbatim>\<open>func loadPage(title string) (*Page, error) {
	filename := "data/" + title + ".txt"
	body, err := os.ReadFile(filename)
	if err != nil {
		return nil, err
	}
	return &Page{Title: title, Body: body}, nil
}\<close>
\<close>

definition loadPage :: "string \<Rightarrow> filesystem \<Rightarrow> PathError + Page" where
  "loadPage title fs =
     (let filename = ''data/'' @ title @ ''.txt''
      in case ReadFile filename fs of
           Inl err \<Rightarrow> Inl err
         | Inr body \<Rightarrow> Inr \<lparr>Title = title, Body = body\<rparr>)"

section \<open>Requests and responses, as package \<open>net/http\<close> presents them\<close>

text \<open>
  Of a request the program reads the path of its URL and, through \<open>FormValue\<close>, the
  parsed form. \<open>Form\<close> is \<open>r.Form\<close> as \<open>net/http\<close> has parsed it for the request;
  \<open>FormValue(key)\<close> is the first value of the key, the empty string if there is none.
\<close>

record Request =
  Method :: string
  URL_Path :: string
  Form :: "string \<rightharpoonup> string list"

definition FormValue :: "Request \<Rightarrow> string \<Rightarrow> string" where
  "FormValue r key = (case Form r key of Some (v # vs) \<Rightarrow> v | _ \<Rightarrow> [])"

text \<open>
  A \<open>ResponseWriter\<close> is the sequence of replies that have been made on it: bytes
  written to the body, an error reply \<open>http.Error(w, msg, code)\<close>, a redirect
  \<open>http.Redirect(w, r, url, code)\<close>. The status line of the response is decided by the
  first reply: a write without a status sends \<open>200\<close>, the other two send their code.
\<close>

datatype reply = Write bytes | Error string nat | Redirect string nat

type_synonym ResponseWriter = "reply list"

definition StatusOK :: nat where "StatusOK = 200"
definition StatusFound :: nat where "StatusFound = 302"
definition StatusNotFound :: nat where "StatusNotFound = 404"
definition StatusInternalServerError :: nat where "StatusInternalServerError = 500"

fun reply_status :: "reply \<Rightarrow> nat" where
  "reply_status (Write b) = StatusOK"
| "reply_status (Error msg code) = code"
| "reply_status (Redirect url code) = code"

definition status :: "ResponseWriter \<Rightarrow> nat option" where
  "status w = (case w of [] \<Rightarrow> None | x # xs \<Rightarrow> Some (reply_status x))"

definition http_Error :: "ResponseWriter \<Rightarrow> string \<Rightarrow> nat \<Rightarrow> ResponseWriter" where
  "http_Error w msg code = w @ [Error msg code]"

text \<open>\<open>func NotFound(w, r) { Error(w, "404 page not found", StatusNotFound) }\<close>\<close>

definition http_NotFound :: "ResponseWriter \<Rightarrow> Request \<Rightarrow> ResponseWriter" where
  "http_NotFound w r = http_Error w ''404 page not found'' StatusNotFound"

definition http_Redirect :: "ResponseWriter \<Rightarrow> Request \<Rightarrow> string \<Rightarrow> nat \<Rightarrow> ResponseWriter" where
  "http_Redirect w r url code = w @ [Redirect url code]"

section \<open>Templates, as package \<open>html/template\<close> presents them\<close>

text \<open>
  The template files are not part of the program. A parsed template is what it does when
  it is executed on a page: the chunks it writes, in order, and the error it ends with,
  if any. The set of templates maps a name to a template. \<open>ExecuteTemplate\<close> fails
  without writing when the set has no template of the name.
\<close>

type_synonym template = "Page \<Rightarrow> bytes list \<times> string option"
type_synonym template_set = "string \<rightharpoonup> template"

definition ExecuteTemplate ::
  "template_set \<Rightarrow> ResponseWriter \<Rightarrow> string \<Rightarrow> Page \<Rightarrow> ResponseWriter \<times> string option" where
  "ExecuteTemplate t w name data =
     (case t name of
        None \<Rightarrow> (w, Some (''html/template: '' @ [CHR 0x22] @ name @ [CHR 0x22] @ '' is undefined''))
      | Some tm \<Rightarrow> (case tm data of (chunks, err) \<Rightarrow> (w @ map Write chunks, err)))"

text \<open>
  \<open>template.ParseFiles(filenames...)\<close> reads and parses the files in order and stops at
  the first error; a file's template is named by the last component of the file's name.
  \<open>parse\<close> stands for the parser of \<open>html/template\<close>. \<open>template.Must\<close> panics on an
  error: the panic is the left summand.
\<close>

fun ParseFiles ::
  "(bytes \<Rightarrow> string + template) \<Rightarrow> filesystem \<Rightarrow> string list \<Rightarrow> template_set
     \<Rightarrow> string + template_set" where
  "ParseFiles parse fs [] t = Inr t"
| "ParseFiles parse fs (name # names) t =
     (case ReadFile name fs of
        Inl err \<Rightarrow> Inl (PathError_Error err)
      | Inr b \<Rightarrow>
          (case parse b of
             Inl err \<Rightarrow> Inl err
           | Inr tm \<Rightarrow> ParseFiles parse fs names (t(last (split_path name) \<mapsto> tm))))"

datatype panic = Panic string

definition template_Must :: "string + template_set \<Rightarrow> panic + template_set" where
  "template_Must r = (case r of Inl err \<Rightarrow> Inl (Panic err) | Inr t \<Rightarrow> Inr t)"

text \<open>
  \<open>var templates = template.Must(template.ParseFiles("tmpl/edit.html", "tmpl/view.html"))\<close>
\<close>

definition templates :: "(bytes \<Rightarrow> string + template) \<Rightarrow> filesystem \<Rightarrow> panic + template_set" where
  "templates parse fs =
     template_Must (ParseFiles parse fs [''tmpl/edit.html'', ''tmpl/view.html''] Map.empty)"

text \<open>
  \<^verbatim>\<open>func renderTemplate(w http.ResponseWriter, tmpl string, p *Page) {
	err := templates.ExecuteTemplate(w, tmpl+".html", p)
	if err != nil {
		http.Error(w, err.Error(), http.StatusInternalServerError)
	}
}\<close>
\<close>

definition renderTemplate :: "template_set \<Rightarrow> ResponseWriter \<Rightarrow> string \<Rightarrow> Page \<Rightarrow> ResponseWriter" where
  "renderTemplate t w tmpl p =
     (case ExecuteTemplate t w (tmpl @ ''.html'') p of
        (w', Some err) \<Rightarrow> http_Error w' err StatusInternalServerError
      | (w', None) \<Rightarrow> w')"

section \<open>The handlers\<close>

text \<open>
  A handler of the program takes the response writer, the request and the title; it
  works on the file system and returns the response writer and the file system as it
  leaves them. The handlers that render take the template set first.
\<close>

type_synonym title_handler =
  "ResponseWriter \<Rightarrow> Request \<Rightarrow> string \<Rightarrow> filesystem \<Rightarrow> ResponseWriter \<times> filesystem"

type_synonym HandlerFunc =
  "ResponseWriter \<Rightarrow> Request \<Rightarrow> filesystem \<Rightarrow> ResponseWriter \<times> filesystem"

text \<open>
  \<^verbatim>\<open>func makeHandler(fn func(http.ResponseWriter, *http.Request, string)) http.HandlerFunc {
	return func(w http.ResponseWriter, r *http.Request) {
		m := validPath.FindStringSubmatch(r.URL.Path)
		if m == nil {
			http.NotFound(w, r)
			return
		}
		fn(w, r, m[2])
	}
}\<close>
\<close>

definition makeHandler :: "title_handler \<Rightarrow> HandlerFunc" where
  "makeHandler fn w r fs =
     (case FindStringSubmatch validPath (URL_Path r) of
        None \<Rightarrow> (http_NotFound w r, fs)
      | Some m \<Rightarrow> fn w r (m ! 2) fs)"

text \<open>
  \<^verbatim>\<open>func viewHandler(w http.ResponseWriter, r *http.Request, title string) {
	p, err := loadPage(title)
	if err != nil {
		http.Redirect(w, r, "/edit/"+title, http.StatusFound)
		return
	}
	renderTemplate(w, "view", p)
}\<close>
\<close>

definition viewHandler :: "template_set \<Rightarrow> title_handler" where
  "viewHandler t w r title fs =
     (case loadPage title fs of
        Inl err \<Rightarrow> (http_Redirect w r (''/edit/'' @ title) StatusFound, fs)
      | Inr p \<Rightarrow> (renderTemplate t w ''view'' p, fs))"

text \<open>
  \<^verbatim>\<open>func editHandler(w http.ResponseWriter, r *http.Request, title string) {
	p, err := loadPage(title)
	if err != nil {
		p = &Page{Title: title}
	}
	renderTemplate(w, "edit", p)
}\<close>
  The body of \<open>&Page{Title: title}\<close> is the \<open>nil\<close> slice, of length zero.
\<close>

definition editHandler :: "template_set \<Rightarrow> title_handler" where
  "editHandler t w r title fs =
     (let p = (case loadPage title fs of
                 Inl err \<Rightarrow> \<lparr>Title = title, Body = []\<rparr>
               | Inr p \<Rightarrow> p)
      in (renderTemplate t w ''edit'' p, fs))"

text \<open>
  \<^verbatim>\<open>func saveHandler(w http.ResponseWriter, r *http.Request, title string) {
	body := r.FormValue("body")
	p := &Page{Title: title, Body: []byte(body)}
	err := p.save()
	if err != nil {
		http.Error(w, err.Error(), http.StatusInternalServerError)
		return
	}
	http.Redirect(w, r, "/view/"+title, http.StatusFound)
}\<close>
\<close>

definition saveHandler :: title_handler where
  "saveHandler w r title fs =
     (let body = FormValue r ''body'';
          p = \<lparr>Title = title, Body = bytes_of body\<rparr>
      in case save p fs of
           (Some err, fs') \<Rightarrow> (http_Error w (PathError_Error err) StatusInternalServerError, fs')
         | (None, fs') \<Rightarrow> (http_Redirect w r (''/view/'' @ title) StatusFound, fs'))"

section \<open>The program\<close>

text \<open>
  \<^verbatim>\<open>func main() {
	http.HandleFunc("/view/", makeHandler(viewHandler))
	http.HandleFunc("/edit/", makeHandler(editHandler))
	http.HandleFunc("/save/", makeHandler(saveHandler))
	log.Fatal(http.ListenAndServe(":8080", nil))
}\<close>
  \<open>main\<close> registers three handlers, each under its pattern, and listens. A pattern of
  \<open>net/http\<close> is \<open>[METHOD ][HOST]/[PATH]\<close>: it restricts the method only when a
  method and a space come first.
\<close>

record server =
  addr :: string
  routes :: "(string \<times> HandlerFunc) list"

definition main :: "template_set \<Rightarrow> server" where
  "main t =
     \<lparr>addr = '':8080'',
      routes = [(''/view/'', makeHandler (viewHandler t)),
                (''/edit/'', makeHandler (editHandler t)),
                (''/save/'', makeHandler saveHandler)]\<rparr>"

definition pattern_method :: "string \<Rightarrow> string option" where
  "pattern_method pat =
     (if CHR '' '' \<in> set pat then Some (takeWhile (\<lambda>c. c \<noteq> CHR '' '') pat) else None)"

text \<open>
  A Go program initialises its package variables and then runs \<open>main\<close>. A panic while
  \<open>templates\<close> is initialised ends the process: \<open>main\<close> does not run, no handler is
  registered and nothing listens.
\<close>

definition program :: "(bytes \<Rightarrow> string + template) \<Rightarrow> filesystem \<Rightarrow> panic + server" where
  "program parse fs =
     (case templates parse fs of
        Inl p \<Rightarrow> Inl p
      | Inr t \<Rightarrow> Inr (main t))"

section \<open>The words of the specification\<close>

text \<open>
  The specification speaks of ASCII alphanumeric characters, of titles of one or more of
  them, and of the three path shapes \<open>/view/<title>\<close>, \<open>/edit/<title>\<close> and
  \<open>/save/<title>\<close>. These definitions follow its words, not the program.
\<close>

definition spec_alnum :: "char \<Rightarrow> bool" where
  "spec_alnum c =
     (c \<in> set ''abcdefghijklmnopqrstuvwxyzABCDEFGHIJKLMNOPQRSTUVWXYZ0123456789'')"

definition spec_title :: "string \<Rightarrow> bool" where
  "spec_title t = (t \<noteq> [] \<and> list_all spec_alnum t)"

definition spec_route :: "string \<Rightarrow> bool" where
  "spec_route p =
     (take 6 p \<in> {''/view/'', ''/edit/'', ''/save/''} \<and> spec_title (drop 6 p))"

text \<open>
  The specification speaks of a template file that loads and parses: the file can be read
  and the parser accepts its content.
\<close>

definition spec_template_ok :: "(bytes \<Rightarrow> string + template) \<Rightarrow> filesystem \<Rightarrow> string \<Rightarrow> bool" where
  "spec_template_ok parse fs name =
     (case ReadFile name fs of
        Inl e \<Rightarrow> False
      | Inr b \<Rightarrow> (case parse b of Inl e \<Rightarrow> False | Inr tm \<Rightarrow> True))"

section \<open>Example states\<close>

text \<open>
  A working directory \<open>/wiki\<close> with the directory \<open>data\<close> in it, under the usual
  umask \<open>022\<close>; a request that posts a body; a template that writes the title and the
  body of its page.
\<close>

definition example_fs :: filesystem where
  "example_fs =
     \<lparr>cwd = [''wiki''], umask = 18,
      nodes = [[] \<mapsto> Dir, [''wiki''] \<mapsto> Dir, [''wiki'', ''data''] \<mapsto> Dir]\<rparr>"

definition example_stored :: filesystem where
  "example_stored =
     example_fs\<lparr>nodes := (nodes example_fs)
       ([''wiki'', ''data'', ''test.txt''] \<mapsto> File ''hello world'' 384)\<rparr>"

definition example_request :: Request where
  "example_request =
     \<lparr>Method = ''POST'', URL_Path = ''/save/test'', Form = [''body'' \<mapsto> [''hello world'']]\<rparr>"

definition example_template :: template where
  "example_template p = ([Title p, '': '', Body p], None)"

text \<open>
  The same working directory without the directory \<open>data\<close>; a second template, for
  editing; the set of the two templates; a parser that knows two template texts; and a
  working directory that holds the two template files.
\<close>

definition example_bare :: filesystem where
  "example_bare = \<lparr>cwd = [''wiki''], umask = 18, nodes = [[] \<mapsto> Dir, [''wiki''] \<mapsto> Dir]\<rparr>"

definition example_edit_template :: template where
  "example_edit_template p = ([''edit '', Title p, '': '', Body p], None)"

definition example_templates :: template_set where
  "example_templates = [''edit.html'' \<mapsto> example_edit_template, ''view.html'' \<mapsto> example_template]"

definition example_parse :: "bytes \<Rightarrow> string + template" where
  "example_parse b =
     (if b = ''view'' then Inr example_template
      else if b = ''edit'' then Inr example_edit_template
      else Inl ''template: unexpected input'')"

definition example_tmpl_fs :: filesystem where
  "example_tmpl_fs =
     \<lparr>cwd = [''wiki''], umask = 18,
      nodes = [[] \<mapsto> Dir, [''wiki''] \<mapsto> Dir, [''wiki'', ''tmpl''] \<mapsto> Dir,
               [''wiki'', ''tmpl'', ''edit.html''] \<mapsto> File ''edit'' 420,
               [''wiki'', ''tmpl'', ''view.html''] \<mapsto> File ''view'' 420]\<rparr>"

section \<open>What the regular expression accepts\<close>

lemma in_class_alnum:
  "in_class [(CHR ''a'', CHR ''z''), (CHR ''A'', CHR ''Z''), (CHR ''0'', CHR ''9'')] c = spec_alnum c"
  by (cases c) (simp add: in_class_def spec_alnum_def)

lemma plus_class_Nil [simp]: "matches (Plus (CharClass rs)) (i, []) c = []"
  by simp

lemma plus_class_Cons [simp]:
  "matches (Plus (CharClass rs)) (i, x # xs) c =
     (if in_class rs x
      then matches (Plus (CharClass rs)) (Suc i, xs) c @ [((Suc i, xs), c)] else [])"
  by (subst matches.simps(5)) simp

lemma begin_then:
  "matches (Concat BeginText r) (i, s) c = (if i = 0 then matches r (i, s) c else [])"
  by simp

lemma literal_then:
  "matches (Concat (Literal w) r) (i, s) c =
     (if take (length w) s = w then matches r (i + length w, drop (length w) s) c else [])"
  by simp

lemma capture_alternate_then:
  "matches (Concat (Capture n (Alternate a b)) r) (i, s) c =
     matches (Concat (Capture n a) r) (i, s) c @ matches (Concat (Capture n b) r) (i, s) c"
  by simp

lemma capture_literal_then:
  "matches (Concat (Capture n (Literal w)) r) (i, s) c =
     (if take (length w) s = w
      then matches r (i + length w, drop (length w) s) (c(n \<mapsto> (i, i + length w))) else [])"
  by simp

lemma capture_then_end:
  "\<forall>r \<in> set L. snd r = c \<and> fst (fst r) + length (snd (fst r)) = n \<Longrightarrow>
   concat (map (\<lambda>(cur', c'). matches EndText cur' c')
            (map (\<lambda>((j, t), c'). ((j, t), c'(g \<mapsto> (i, j)))) L)) =
   map (\<lambda>r. ((n, []), c(g \<mapsto> (i, n)))) (filter (\<lambda>r. snd (fst r) = []) L)"
  by (induction L) auto

declare matches.simps [simp del]

text \<open>
  The repetition of the class, followed by the end of the text: of all the prefixes that
  the repetition can take, only the whole rest of the text is followed by the end.
\<close>

lemma plus_class_at_end:
  "filter (\<lambda>r. snd (fst r) = [])
     (matches (Plus (CharClass
        [(CHR ''a'', CHR ''z''), (CHR ''A'', CHR ''Z''), (CHR ''0'', CHR ''9'')])) (i, s) c) =
     (if spec_title s then [((i + length s, []), c)] else [])"
proof (induction s arbitrary: i)
  case Nil
  show ?case by (simp add: spec_title_def)
next
  case (Cons x xs)
  have IH: "filter (\<lambda>r. snd (fst r) = [])
     (matches (Plus (CharClass
        [(CHR ''a'', CHR ''z''), (CHR ''A'', CHR ''Z''), (CHR ''0'', CHR ''9'')])) (Suc i, xs) c) =
     (if spec_title xs then [((Suc i + length xs, []), c)] else [])"
    by (rule Cons.IH)
  show ?case
    by (simp add: IH in_class_alnum) (auto simp: spec_title_def)
qed

lemma plus_class_offsets:
  "(cur, c') \<in> set (matches (Plus (CharClass rs)) (i, s) c) \<Longrightarrow>
     c' = c \<and> fst cur + length (snd cur) = i + length s"
proof (induction s arbitrary: i)
  case Nil
  then show ?case by simp
next
  case (Cons x xs)
  from Cons.prems show ?case
    by (auto split: if_splits dest: Cons.IH)
qed

lemma title_at_end:
  "matches (Concat (Capture 2 (Plus (CharClass
       [(CHR ''a'', CHR ''z''), (CHR ''A'', CHR ''Z''), (CHR ''0'', CHR ''9'')]))) EndText) (i, s) c =
     (if spec_title s then [((i + length s, []), c(2 \<mapsto> (i, i + length s)))] else [])"
proof -
  let ?L = "matches (Plus (CharClass
       [(CHR ''a'', CHR ''z''), (CHR ''A'', CHR ''Z''), (CHR ''0'', CHR ''9'')])) (i, s) c"
  have "\<forall>r \<in> set ?L. snd r = c \<and> fst (fst r) + length (snd (fst r)) = i + length s"
    using plus_class_offsets [of _ _ _ i s c] by auto
  from capture_then_end [OF this] show ?thesis
    by (simp add: plus_class_at_end matches.simps(3,6))
qed

lemma six_or_more:
  assumes "6 \<le> length s"
  obtains a b c d e f t where "s = a # b # c # d # e # f # t"
  using assms by (auto simp: numeral_eq_Suc Suc_le_length_iff)

lemma matches_validPath:
  "matches validPath (i, s) c =
     (if i = 0 \<and> spec_route s
      then [((length s, []), c(1 \<mapsto> (1, 5), 2 \<mapsto> (6, length s)))] else [])"
proof (cases "6 \<le> length s")
  case False
  then have "drop 6 s = []" by simp
  then show ?thesis
    by (simp add: validPath_def begin_then literal_then capture_alternate_then
        capture_literal_then title_at_end spec_route_def spec_title_def)
next
  case True
  then obtain a b c d e f t where s: "s = a # b # c # d # e # f # t"
    by (rule six_or_more)
  show ?thesis
    unfolding s
    by (simp add: validPath_def begin_then literal_then capture_alternate_then
        capture_literal_then title_at_end spec_route_def) (simp add: eval_nat_numeral)
qed

lemma leftmost_validPath_later: "leftmost validPath (Suc i) s = None"
  by (induction s arbitrary: i) (simp_all add: matches_validPath)

lemma groups_validPath: "[1 ..< Suc (NumSubexp validPath)] = [1, 2]"
  by (simp add: validPath_def upt_rec)

lemma leftmost_validPath:
  "leftmost validPath 0 s =
     (if spec_route s
      then Some (0, length s, [1 \<mapsto> (1, 5), 2 \<mapsto> (6, length s)]) else None)"
  by (subst leftmost.simps)
     (simp add: matches_validPath leftmost_validPath_later split: list.split
        del: leftmost.simps)

lemma FindStringSubmatch_validPath:
  "FindStringSubmatch validPath p =
     (if spec_route p then Some [p, take 4 (drop 1 p), drop 6 p] else None)"
  unfolding FindStringSubmatch_def groups_validPath
  by (simp add: leftmost_validPath substring_def del: leftmost.simps)

lemma spec_route_example: "spec_route ''/view/foo''"
  by (simp add: spec_route_def spec_title_def spec_alnum_def)

lemma spec_route_counterexamples:
  "\<not> spec_route ''/view/''" "\<not> spec_route ''/view/foo/bar''"
  "\<not> spec_route ''/delete/foo''" "\<not> spec_route ''/view/foo!''"
  by (simp_all add: spec_route_def spec_title_def spec_alnum_def)

lemma spec_route_iff:
  "spec_route p \<longleftrightarrow>
     (\<exists>verb \<in> {''view'', ''edit'', ''save''}. \<exists>t. spec_title t \<and> p = ''/'' @ verb @ ''/'' @ t)"
proof
  assume r: "spec_route p"
  then have t: "spec_title (drop 6 p)"
    by (simp add: spec_route_def)
  from r consider "take 6 p = ''/view/''" | "take 6 p = ''/edit/''" | "take 6 p = ''/save/''"
    by (auto simp: spec_route_def)
  then show "\<exists>verb \<in> {''view'', ''edit'', ''save''}. \<exists>t. spec_title t \<and> p = ''/'' @ verb @ ''/'' @ t"
  proof cases
    case 1
    then have "p = ''/'' @ ''view'' @ ''/'' @ drop 6 p"
      using append_take_drop_id [of 6 p] by simp
    with t show ?thesis by blast
  next
    case 2
    then have "p = ''/'' @ ''edit'' @ ''/'' @ drop 6 p"
      using append_take_drop_id [of 6 p] by simp
    with t show ?thesis by blast
  next
    case 3
    then have "p = ''/'' @ ''save'' @ ''/'' @ drop 6 p"
      using append_take_drop_id [of 6 p] by simp
    with t show ?thesis by blast
  qed
next
  assume "\<exists>verb \<in> {''view'', ''edit'', ''save''}. \<exists>t. spec_title t \<and> p = ''/'' @ verb @ ''/'' @ t"
  then show "spec_route p" by (auto simp: spec_route_def)
qed

section \<open>File names and the file system\<close>

lemma spec_alnum_not_special: "spec_alnum c \<Longrightarrow> c \<noteq> CHR ''/'' \<and> c \<noteq> CHR 0x00 \<and> c \<noteq> CHR ''.''"
  by (auto simp: spec_alnum_def)


lemma spec_title_chars:
  "spec_title t \<Longrightarrow> CHR ''/'' \<notin> set t \<and> CHR 0x00 \<notin> set t"
  by (auto simp: spec_title_def list_all_iff dest: spec_alnum_not_special)


lemma split_path_nonempty: "split_path s \<noteq> []"
  by (induction s) (auto split: list.splits)

lemma split_path_no_slash:
  "CHR ''/'' \<notin> set t \<Longrightarrow>
     split_path (t @ s) = (t @ hd (split_path s)) # tl (split_path s)"
  by (induction t) (auto simp: split_path_nonempty)

lemma split_path_data_file:
  "CHR ''/'' \<notin> set t \<Longrightarrow> split_path (''data/'' @ t @ ''.txt'') = [''data'', t @ ''.txt'']"
  by (simp add: split_path_no_slash)

lemma split_path_file:
  "CHR ''/'' \<notin> set t \<Longrightarrow> split_path (t @ ''.txt'') = [t @ ''.txt'']"
  by (simp add: split_path_no_slash)

lemma resolve_data_file:
  assumes "spec_title t"
  shows "resolve fs (''data/'' @ t @ ''.txt'') =
     (case nodes fs (cwd fs) of
        None \<Rightarrow> Inl ENOENT
      | Some (File b m) \<Rightarrow> Inl ENOTDIR
      | Some Dir \<Rightarrow>
          (case nodes fs (cwd fs @ [''data'']) of
             None \<Rightarrow> Inl ENOENT
           | Some (File b m) \<Rightarrow> Inl ENOTDIR
           | Some Dir \<Rightarrow> Inr (cwd fs @ [''data'', t @ ''.txt''])))"
  using spec_title_chars [OF assms]
  by (simp add: resolve_def split_path_file split: option.splits node.splits)


lemma walk_update:
  "walk ns d cs = Inr q \<Longrightarrow> ns p \<noteq> Some Dir \<Longrightarrow> walk (ns(p \<mapsto> v)) d cs = Inr q"
proof (induction cs arbitrary: d)
  case Nil
  then show ?case by simp
next
  case (Cons c cs)
  from Cons.prems have d: "ns d = Some Dir"
    by (auto split: option.splits node.splits)
  with Cons.prems have "d \<noteq> p" by auto
  with d Cons show ?case by (auto split: if_splits)
qed


lemma resolve_update:
  "resolve fs name = Inr q \<Longrightarrow> nodes fs p \<noteq> Some Dir \<Longrightarrow>
     resolve (fs\<lparr>nodes := (nodes fs)(p \<mapsto> v)\<rparr>) name = Inr q"
  by (auto simp: resolve_def walk_update split: if_splits)


lemma WriteFile_ok:
  assumes "WriteFile name b perm fs = (None, fs')"
  obtains q where "resolve fs name = Inr q" and "nodes fs q \<noteq> Some Dir"
    and "fs' = fs\<lparr>nodes := (nodes fs)(q \<mapsto> File b
            (case nodes fs q of Some (File old m) \<Rightarrow> m | _ \<Rightarrow> perm AND NOT (umask fs)))\<rparr>"
  using assms
  by (auto simp: WriteFile_def split: sum.splits option.splits node.splits if_splits)


lemma WriteFile_failed:
  "WriteFile name b perm fs = (Some err, fs') \<Longrightarrow> fs' = fs"
  by (auto simp: WriteFile_def split: sum.splits option.splits node.splits if_splits)


lemma ReadFile_after_WriteFile:
  assumes "WriteFile name b perm fs = (None, fs')"
  shows "ReadFile name fs' = Inr b"
proof -
  from assms obtain q where q: "resolve fs name = Inr q" "nodes fs q \<noteq> Some Dir"
    and fs': "fs' = fs\<lparr>nodes := (nodes fs)(q \<mapsto> File b
            (case nodes fs q of Some (File old m) \<Rightarrow> m | _ \<Rightarrow> perm AND NOT (umask fs)))\<rparr>"
    by (rule WriteFile_ok)
  from resolve_update [OF q] show ?thesis
    by (simp add: ReadFile_def fs')
qed


lemma WriteFile_again:
  assumes "WriteFile name a perm fs = (None, fs')"
  shows "fst (WriteFile name b perm' fs') = None"
proof -
  from assms obtain q where q: "resolve fs name = Inr q" "nodes fs q \<noteq> Some Dir"
    and fs': "fs' = fs\<lparr>nodes := (nodes fs)(q \<mapsto> File a
            (case nodes fs q of Some (File old m) \<Rightarrow> m | _ \<Rightarrow> perm AND NOT (umask fs)))\<rparr>"
    by (rule WriteFile_ok)
  from resolve_update [OF q] show ?thesis
    by (simp add: WriteFile_def fs')
qed




lemma resolve_confined:
  assumes "spec_title t"
  shows "(case resolve fs (''data/'' @ t @ ''.txt'') of
            Inl e \<Rightarrow> True
          | Inr q \<Rightarrow> q = cwd fs @ [''data'', t @ ''.txt''])"
  unfolding resolve_data_file [OF assms]
  by (simp split: option.splits node.splits)

lemma WriteFile_touches:
  "(case resolve fs name of Inl e \<Rightarrow> True | Inr q' \<Rightarrow> q' = q) \<Longrightarrow>
     \<exists>md. snd (WriteFile name b perm fs) \<in> {fs, fs\<lparr>nodes := (nodes fs)(q \<mapsto> File b md)\<rparr>}"
  by (auto simp: WriteFile_def split: sum.splits option.splits node.splits)

lemma save_confined:
  assumes "spec_title t"
  shows "\<exists>md. snd (save \<lparr>Title = t, Body = b\<rparr> fs) \<in>
           {fs, fs\<lparr>nodes := (nodes fs)(cwd fs @ [''data'', t @ ''.txt''] \<mapsto> File b md)\<rparr>}"
proof -
  have "save \<lparr>Title = t, Body = b\<rparr> fs = WriteFile (''data/'' @ t @ ''.txt'') b 384 fs"
    by (simp add: save_def)
  then show ?thesis
    by (simp only: WriteFile_touches [OF resolve_confined [OF assms]])
qed

lemma loadPage_Inr:
  assumes "spec_title t" and "loadPage t fs = Inr p"
  shows "Title p = t \<and> (\<exists>md. nodes fs (cwd fs @ [''data'', t @ ''.txt'']) = Some (File (Body p) md))"
  using assms(2)
  unfolding loadPage_def Let_def ReadFile_def resolve_data_file [OF assms(1)]
  by (auto split: option.splits node.splits sum.splits)

lemma loadPage_frame:
  assumes "spec_title t"
    and "cwd fs' = cwd fs"
    and "nodes fs' (cwd fs) = nodes fs (cwd fs)"
    and "nodes fs' (cwd fs @ [''data'']) = nodes fs (cwd fs @ [''data''])"
    and "nodes fs' (cwd fs @ [''data'', t @ ''.txt'']) = nodes fs (cwd fs @ [''data'', t @ ''.txt''])"
  shows "loadPage t fs' = loadPage t fs"
  unfolding loadPage_def Let_def ReadFile_def resolve_data_file [OF assms(1)]
  using assms(2-5) by (simp split: option.splits node.splits)

lemma makeHandler_routes:
  "makeHandler fn w r fs =
     (if spec_route (URL_Path r) then fn w r (drop 6 (URL_Path r)) fs
      else (http_NotFound w r, fs))"
  by (simp add: makeHandler_def FindStringSubmatch_validPath)

lemma save_eq_WriteFile:
  "save p fs = WriteFile (''data/'' @ Title p @ ''.txt'') (Body p) 384 fs"
  by (simp add: save_def)

lemma loadPage_after_save:
  assumes "save p fs = (None, fs')"
  shows "loadPage (Title p) fs' = Inr p"
proof -
  from assms have "WriteFile (''data/'' @ Title p @ ''.txt'') (Body p) 384 fs = (None, fs')"
    by (simp only: save_eq_WriteFile)
  then have "ReadFile (''data/'' @ Title p @ ''.txt'') fs' = Inr (Body p)"
    by (rule ReadFile_after_WriteFile)
  then show ?thesis
    unfolding loadPage_def Let_def by simp
qed

lemma loadPage_absent:
  assumes "spec_title t" and "nodes fs (cwd fs @ [''data'', t @ ''.txt'']) = None"
  shows "\<exists>err. loadPage t fs = Inl err"
  using assms(2)
  unfolding loadPage_def Let_def ReadFile_def resolve_data_file [OF assms(1)]
  by (auto split: option.splits node.splits sum.splits)

lemma save_failed: "save p fs = (Some err, fs') \<Longrightarrow> fs' = fs"
  by (simp only: save_eq_WriteFile) (rule WriteFile_failed)


lemma renderTemplate_expand:
  "renderTemplate t w name p =
     (case t (name @ ''.html'') of
        None \<Rightarrow>
          w @ [Error (''html/template: '' @ [CHR 0x22] @ (name @ ''.html'') @ [CHR 0x22]
                        @ '' is undefined'') 500]
      | Some tm \<Rightarrow>
          w @ map Write (fst (tm p))
            @ (case snd (tm p) of None \<Rightarrow> [] | Some err \<Rightarrow> [Error err 500]))"
  by (simp add: renderTemplate_def ExecuteTemplate_def http_Error_def
      StatusInternalServerError_def split: option.splits prod.splits)

lemma spec_route_of_title:
  "spec_title title \<Longrightarrow> verb \<in> {''view'', ''edit'', ''save''} \<Longrightarrow>
     spec_route (''/'' @ verb @ ''/'' @ title) \<and> drop 6 (''/'' @ verb @ ''/'' @ title) = title"
  by (auto simp: spec_route_def)

section \<open>The example states, evaluated\<close>

lemma spec_title_test: "spec_title ''test''"
  by (simp add: spec_title_def spec_alnum_def)

lemma save_example:
  "save \<lparr>Title = ''test'', Body = ''hello world''\<rparr> example_fs = (None, example_stored)"
  by (simp add: save_def WriteFile_def resolve_def example_fs_def example_stored_def)

lemma loadPage_example_absent:
  "loadPage ''alice'' example_fs = Inl (PathError ''open'' ''data/alice.txt'' ENOENT)"
  by (simp add: loadPage_def ReadFile_def resolve_def example_fs_def)

lemma loadPage_example_stored:
  "loadPage ''test'' example_stored = Inr \<lparr>Title = ''test'', Body = ''hello world''\<rparr>"
  by (simp add: loadPage_def ReadFile_def resolve_def example_fs_def example_stored_def)

lemma spec_title_alice: "spec_title ''alice''"
  by (simp add: spec_title_def spec_alnum_def)

lemma example_fs_alice_absent:
  "nodes example_fs (cwd example_fs @ [''data'', ''alice'' @ ''.txt'']) = None"
  by (simp add: example_fs_def)


lemma example_templates_ok:
  "spec_template_ok example_parse example_tmpl_fs ''tmpl/edit.html''
   \<and> spec_template_ok example_parse example_tmpl_fs ''tmpl/view.html''"
  by (simp add: spec_template_ok_def ReadFile_def resolve_def example_tmpl_fs_def
      example_parse_def)

lemma example_templates_missing:
  "\<not> (spec_template_ok example_parse example_fs ''tmpl/edit.html''
      \<and> spec_template_ok example_parse example_fs ''tmpl/view.html'')"
  by (simp add: spec_template_ok_def ReadFile_def resolve_def example_fs_def)

lemma save_example_request:
  "save \<lparr>Title = ''test'', Body = FormValue example_request ''body''\<rparr> example_fs
     = (None, example_stored)"
  by (simp add: FormValue_def example_request_def save_example)

lemma save_example_bare:
  "save \<lparr>Title = ''test'', Body = FormValue example_request ''body''\<rparr> example_bare
     = (Some (PathError ''open'' ''data/test.txt'' ENOENT), example_bare)"
  by (simp add: save_def WriteFile_def resolve_def example_bare_def)

section \<open>The router\<close>

text \<open>
  Claim C1. For every request the router does one of two things. Either the path is
  accepted: then \<open>FindStringSubmatch\<close> returns the path, the verb and a title, every
  domain handler is run with exactly this title, and the title consists of one or more
  ASCII alphanumeric characters. Or the path is not accepted: then no domain handler has
  any part in the result, which is the reply of \<open>http.NotFound\<close>. So whenever a domain
  handler runs, its title is alphanumeric. For such a title the name
  \<open>"data/" + title + ".txt"\<close> holds no path separator besides the one after \<open>data\<close>:
  it has exactly the two components \<open>data\<close> and \<open><title>.txt\<close> and resolves (when it
  resolves) to the node \<open><title>.txt\<close> directly inside \<open>data\<close> of the working
  directory. \<open>save\<close> changes no other node; a page that \<open>loadPage\<close> returns is the
  content of that node, and the result of \<open>loadPage\<close> depends on nothing but the working
  directory, \<open>data\<close> and that node.
\<close>

theorem routed_title_confined:
  "(\<exists>verb t.
       FindStringSubmatch validPath (URL_Path r) = Some [URL_Path r, verb, t]
     \<and> (\<forall>fn w fs. makeHandler fn w r fs = fn w r t fs)
     \<and> spec_title t
     \<and> CHR ''/'' \<notin> set t
     \<and> split_path (''data/'' @ t @ ''.txt'') = [''data'', t @ ''.txt'']
     \<and> (\<forall>fs. case resolve fs (''data/'' @ t @ ''.txt'') of
               Inl e \<Rightarrow> True
             | Inr q \<Rightarrow> q = cwd fs @ [''data'', t @ ''.txt''])
     \<and> (\<forall>fs b. \<exists>md. snd (save \<lparr>Title = t, Body = b\<rparr> fs) \<in>
           {fs, fs\<lparr>nodes := (nodes fs)(cwd fs @ [''data'', t @ ''.txt''] \<mapsto> File b md)\<rparr>})
     \<and> (\<forall>fs p. loadPage t fs = Inr p \<longrightarrow>
           Title p = t
           \<and> (\<exists>md. nodes fs (cwd fs @ [''data'', t @ ''.txt'']) = Some (File (Body p) md)))
     \<and> (\<forall>fs fs'. cwd fs' = cwd fs
             \<and> nodes fs' (cwd fs) = nodes fs (cwd fs)
             \<and> nodes fs' (cwd fs @ [''data'']) = nodes fs (cwd fs @ [''data''])
             \<and> nodes fs' (cwd fs @ [''data'', t @ ''.txt''])
                 = nodes fs (cwd fs @ [''data'', t @ ''.txt''])
           \<longrightarrow> loadPage t fs' = loadPage t fs))
   \<or> (FindStringSubmatch validPath (URL_Path r) = None
     \<and> (\<forall>fn w fs. makeHandler fn w r fs = (http_NotFound w r, fs)))"
proof (cases "spec_route (URL_Path r)")
  case False
  then show ?thesis
    by (simp add: makeHandler_routes FindStringSubmatch_validPath)
next
  case True
  define t where "t = drop 6 (URL_Path r)"
  from True have t: "spec_title t"
    by (simp add: spec_route_def t_def)
  have "FindStringSubmatch validPath (URL_Path r)
          = Some [URL_Path r, take 4 (drop 1 (URL_Path r)), t]"
    using True by (simp add: FindStringSubmatch_validPath t_def)
  moreover have "\<forall>fn w fs. makeHandler fn w r fs = fn w r t fs"
    using True by (simp add: makeHandler_routes t_def)
  moreover have "CHR ''/'' \<notin> set t"
    using spec_title_chars [OF t] by simp
  moreover have "split_path (''data/'' @ t @ ''.txt'') = [''data'', t @ ''.txt'']"
    using spec_title_chars [OF t] by (simp add: split_path_file)
  moreover have "\<forall>fs. case resolve fs (''data/'' @ t @ ''.txt'') of
               Inl e \<Rightarrow> True
             | Inr q \<Rightarrow> q = cwd fs @ [''data'', t @ ''.txt'']"
    using resolve_confined [OF t] by blast
  moreover have "\<forall>fs b. \<exists>md. snd (save \<lparr>Title = t, Body = b\<rparr> fs) \<in>
           {fs, fs\<lparr>nodes := (nodes fs)(cwd fs @ [''data'', t @ ''.txt''] \<mapsto> File b md)\<rparr>}"
    using save_confined [OF t] by blast
  moreover have "\<forall>fs p. loadPage t fs = Inr p \<longrightarrow>
           Title p = t
           \<and> (\<exists>md. nodes fs (cwd fs @ [''data'', t @ ''.txt'']) = Some (File (Body p) md))"
    using loadPage_Inr [OF t] by blast
  moreover have "\<forall>fs fs'. cwd fs' = cwd fs
             \<and> nodes fs' (cwd fs) = nodes fs (cwd fs)
             \<and> nodes fs' (cwd fs @ [''data'']) = nodes fs (cwd fs @ [''data''])
             \<and> nodes fs' (cwd fs @ [''data'', t @ ''.txt''])
                 = nodes fs (cwd fs @ [''data'', t @ ''.txt''])
           \<longrightarrow> loadPage t fs' = loadPage t fs"
    using loadPage_frame [OF t] by blast
  ultimately show ?thesis
    using t
    by (intro disjI1 exI [of _ "take 4 (drop 1 (URL_Path r))"] exI [of _ t] conjI)
qed

theorem routed_title_confined_witness:
  "FindStringSubmatch validPath (URL_Path example_request) = Some [''/save/test'', ''save'', ''test'']
   \<and> makeHandler saveHandler [] example_request example_fs
       = saveHandler [] example_request ''test'' example_fs
   \<and> spec_title ''test''
   \<and> split_path (''data/'' @ ''test'' @ ''.txt'') = [''data'', ''test'' @ ''.txt'']
   \<and> resolve example_fs ''data/test.txt'' = Inr [''wiki'', ''data'', ''test.txt'']
   \<and> loadPage ''test'' example_stored = Inr \<lparr>Title = ''test'', Body = ''hello world''\<rparr>
   \<and> (\<exists>md. nodes example_stored (cwd example_stored @ [''data'', ''test'' @ ''.txt''])
             = Some (File ''hello world'' md))
   \<and> loadPage ''test'' (example_stored\<lparr>nodes := (nodes example_stored)
                                ([''etc'', ''passwd''] \<mapsto> File ''root'' 420)\<rparr>)
       = loadPage ''test'' example_stored"
proof -
  have h: "FindStringSubmatch validPath (URL_Path example_request)
             = Some [''/save/test'', ''save'', ''test'']"
    by (simp add: FindStringSubmatch_validPath example_request_def spec_route_def
        spec_title_def spec_alnum_def)
  have r: "resolve example_fs ''data/test.txt'' = Inr [''wiki'', ''data'', ''test.txt'']"
    by (simp add: resolve_def example_fs_def)
  have l: "loadPage ''test'' example_stored = Inr \<lparr>Title = ''test'', Body = ''hello world''\<rparr>"
    by (simp add: loadPage_def ReadFile_def resolve_def example_stored_def example_fs_def)
  from routed_title_confined [of example_request] show ?thesis
  proof (elim disjE exE conjE)
    fix verb t
    assume m: "FindStringSubmatch validPath (URL_Path example_request)
                 = Some [URL_Path example_request, verb, t]"
      and a: "\<forall>fn w fs. makeHandler fn w example_request fs = fn w example_request t fs"
      and b: "spec_title t"
      and d: "split_path (''data/'' @ t @ ''.txt'') = [''data'', t @ ''.txt'']"
      and g: "\<forall>fs p. loadPage t fs = Inr p \<longrightarrow>
           Title p = t
           \<and> (\<exists>md. nodes fs (cwd fs @ [''data'', t @ ''.txt'']) = Some (File (Body p) md))"
      and i: "\<forall>fs fs'. cwd fs' = cwd fs
             \<and> nodes fs' (cwd fs) = nodes fs (cwd fs)
             \<and> nodes fs' (cwd fs @ [''data'']) = nodes fs (cwd fs @ [''data''])
             \<and> nodes fs' (cwd fs @ [''data'', t @ ''.txt''])
                 = nodes fs (cwd fs @ [''data'', t @ ''.txt''])
           \<longrightarrow> loadPage t fs' = loadPage t fs"
    from m h have t: "t = ''test''" by simp
    have "loadPage t (example_stored\<lparr>nodes := (nodes example_stored)
                                ([''etc'', ''passwd''] \<mapsto> File ''root'' 420)\<rparr>)
       = loadPage t example_stored"
      by (rule i [rule_format]) (simp add: example_stored_def example_fs_def t)
    then have i': "loadPage ''test'' (example_stored\<lparr>nodes := (nodes example_stored)
                                ([''etc'', ''passwd''] \<mapsto> File ''root'' 420)\<rparr>)
       = loadPage ''test'' example_stored"
      unfolding t .
    from a have a': "makeHandler saveHandler [] example_request example_fs
        = saveHandler [] example_request ''test'' example_fs"
      unfolding t by blast
    from g l have g': "\<exists>md. nodes example_stored (cwd example_stored @ [''data'', ''test'' @ ''.txt''])
             = Some (File ''hello world'' md)"
      unfolding t by fastforce
    from a' b d g' h r l i' show ?thesis unfolding t by (intro conjI)
  next
    assume "FindStringSubmatch validPath (URL_Path example_request) = None"
    with h show ?thesis by simp
  qed
qed

text \<open>
  Claim C2. When the path of the request has none of the shapes \<open>/view/<title>\<close>,
  \<open>/edit/<title>\<close>, \<open>/save/<title>\<close> with a title of one or more ASCII alphanumeric
  characters, the wrapped handler answers \<open>404\<close> (the reply of \<open>http.NotFound\<close>) and
  nothing else happens: whatever the domain handler \<open>fn\<close> is, it has no part in the
  result, and the file system is as before.
\<close>

theorem makeHandler_not_found:
  assumes "\<not> spec_route (URL_Path r)"
  shows "makeHandler fn w r fs = (w @ [Error ''404 page not found'' 404], fs)
     \<and> status (fst (makeHandler fn [] r fs)) = Some 404"
  using assms
  by (simp add: makeHandler_def FindStringSubmatch_validPath http_NotFound_def http_Error_def
      StatusNotFound_def status_def)

theorem makeHandler_not_found_witness:
  "\<not> spec_route ''/view/foo!''
   \<and> makeHandler saveHandler [] (example_request\<lparr>URL_Path := ''/view/foo!''\<rparr>) example_fs
       = ([Error ''404 page not found'' 404], example_fs)"
proof -
  have h: "\<not> spec_route (URL_Path (example_request\<lparr>URL_Path := ''/view/foo!''\<rparr>))"
    by (simp add: spec_route_def spec_title_def spec_alnum_def)
  from makeHandler_not_found [OF h, of saveHandler "[]" example_fs] h
  show ?thesis by simp
qed

section \<open>The page store\<close>





text \<open>
  Claim C8. For every title and bodies \<open>a\<close> and \<open>b\<close>: when a save of \<open>a\<close> under the
  title has returned no error, a save of \<open>b\<close> under the same title returns no error
  either, and the content stored for the title is then exactly \<open>b\<close>. Nothing of \<open>a\<close>
  remains: the file system is the one that a single save of \<open>b\<close> would have left.
\<close>

theorem second_save_overwrites:
  assumes "save \<lparr>Title = t, Body = a\<rparr> fs = (None, fs1)"
  shows "\<exists>fs2. save \<lparr>Title = t, Body = b\<rparr> fs1 = (None, fs2)
           \<and> loadPage t fs2 = Inr \<lparr>Title = t, Body = b\<rparr>
           \<and> ReadFile (''data/'' @ t @ ''.txt'') fs2 = Inr b
           \<and> save \<lparr>Title = t, Body = b\<rparr> fs = (None, fs2)"
proof -
  let ?name = "''data/'' @ t @ ''.txt''"
  from assms have w: "WriteFile ?name a 384 fs = (None, fs1)"
    by (simp add: save_eq_WriteFile)
  then obtain q where q: "resolve fs ?name = Inr q" "nodes fs q \<noteq> Some Dir"
    and fs1: "fs1 = fs\<lparr>nodes := (nodes fs)(q \<mapsto> File a
            (case nodes fs q of Some (File old m) \<Rightarrow> m | _ \<Rightarrow> 384 AND NOT (umask fs)))\<rparr>"
    by (rule WriteFile_ok)
  define fs2 where "fs2 = snd (WriteFile ?name b 384 fs1)"
  from resolve_update [OF q] have r1: "resolve fs1 ?name = Inr q"
    by (simp add: fs1)
  have w2: "WriteFile ?name b 384 fs1 = (None, fs2)"
    unfolding fs2_def WriteFile_def r1 by (simp add: fs1)
  have w3: "WriteFile ?name b 384 fs = (None, fs2)"
    using w q unfolding fs2_def WriteFile_def r1
    by (auto simp: fs1 split: option.splits node.splits if_splits)
  have "save \<lparr>Title = t, Body = b\<rparr> fs1 = (None, fs2)"
    using w2 by (simp add: save_eq_WriteFile)
  moreover from loadPage_after_save [OF this]
  have "loadPage t fs2 = Inr \<lparr>Title = t, Body = b\<rparr>" by simp
  moreover have "ReadFile ?name fs2 = Inr b"
    using w2 by (rule ReadFile_after_WriteFile)
  moreover have "save \<lparr>Title = t, Body = b\<rparr> fs = (None, fs2)"
    using w3 by (simp add: save_eq_WriteFile)
  ultimately show ?thesis by blast
qed

theorem second_save_overwrites_witness:
  "save \<lparr>Title = ''test'', Body = ''hello world''\<rparr> example_fs = (None, example_stored)
   \<and> (\<exists>fs2. save \<lparr>Title = ''test'', Body = ''b''\<rparr> example_stored = (None, fs2)
           \<and> loadPage ''test'' fs2 = Inr \<lparr>Title = ''test'', Body = ''b''\<rparr>
           \<and> ReadFile ''data/test.txt'' fs2 = Inr ''b'')"
proof -
  from second_save_overwrites [OF save_example, of "''b''"]
  have "\<exists>fs2. save \<lparr>Title = ''test'', Body = ''b''\<rparr> example_stored = (None, fs2)
           \<and> loadPage ''test'' fs2 = Inr \<lparr>Title = ''test'', Body = ''b''\<rparr>
           \<and> ReadFile ''data/test.txt'' fs2 = Inr ''b''"
    by auto
  with save_example show ?thesis by simp
qed

section \<open>The three handlers\<close>

text \<open>
  Claim C5. When \<open>loadPage(title)\<close> fails, the view handler replies with the redirect
  \<open>302\<close> (Found) to \<open>"/edit/" + title\<close> and with nothing else: no template is
  executed, whatever the template set is, and the file system is as before. When
  \<open>loadPage\<close> succeeds, the handler renders the template \<open>view\<close> with the loaded page:
  the response is what the template \<open>view.html\<close> writes for this page. For a validated
  title \<open>loadPage\<close> fails in particular when no node \<open>data/<title>.txt\<close> exists.
\<close>

theorem viewHandler_redirects_or_renders:
  "(\<forall>err. loadPage title fs = Inl err \<longrightarrow>
       viewHandler t w r title fs = (w @ [Redirect (''/edit/'' @ title) 302], fs)
     \<and> status (fst (viewHandler t [] r title fs)) = Some 302)
   \<and> (\<forall>p. loadPage title fs = Inr p \<longrightarrow>
       viewHandler t w r title fs = (renderTemplate t w ''view'' p, fs)
     \<and> (case t ''view.html'' of
          None \<Rightarrow> True
        | Some tm \<Rightarrow>
            fst (viewHandler t w r title fs) =
              w @ map Write (fst (tm p))
                @ (case snd (tm p) of None \<Rightarrow> [] | Some e \<Rightarrow> [Error e 500])))
   \<and> (spec_title title \<and> nodes fs (cwd fs @ [''data'', title @ ''.txt'']) = None \<longrightarrow>
       viewHandler t w r title fs = (w @ [Redirect (''/edit/'' @ title) 302], fs))"
proof (intro conjI allI impI)
  fix err assume "loadPage title fs = Inl err"
  then show "viewHandler t w r title fs = (w @ [Redirect (''/edit/'' @ title) 302], fs)"
    and "status (fst (viewHandler t [] r title fs)) = Some 302"
    by (simp_all add: viewHandler_def http_Redirect_def StatusFound_def status_def)
next
  fix p assume l: "loadPage title fs = Inr p"
  then show v: "viewHandler t w r title fs = (renderTemplate t w ''view'' p, fs)"
    by (simp add: viewHandler_def)
  show "case t ''view.html'' of
          None \<Rightarrow> True
        | Some tm \<Rightarrow>
            fst (viewHandler t w r title fs) =
              w @ map Write (fst (tm p))
                @ (case snd (tm p) of None \<Rightarrow> [] | Some e \<Rightarrow> [Error e 500])"
    unfolding v by (simp add: renderTemplate_expand split: option.splits)
next
  assume "spec_title title \<and> nodes fs (cwd fs @ [''data'', title @ ''.txt'']) = None"
  then obtain err where "loadPage title fs = Inl err"
    using loadPage_absent by blast
  then show "viewHandler t w r title fs = (w @ [Redirect (''/edit/'' @ title) 302], fs)"
    by (simp add: viewHandler_def http_Redirect_def StatusFound_def)
qed

theorem viewHandler_redirects_or_renders_witness:
  "loadPage ''alice'' example_fs = Inl (PathError ''open'' ''data/alice.txt'' ENOENT)
   \<and> spec_title ''alice''
   \<and> nodes example_fs (cwd example_fs @ [''data'', ''alice'' @ ''.txt'']) = None
   \<and> viewHandler example_templates [] example_request ''alice'' example_fs
       = ([Redirect ''/edit/alice'' 302], example_fs)
   \<and> status (fst (viewHandler example_templates [] example_request ''alice'' example_fs))
       = Some 302
   \<and> loadPage ''test'' example_stored = Inr \<lparr>Title = ''test'', Body = ''hello world''\<rparr>
   \<and> viewHandler example_templates [] example_request ''test'' example_stored
       = ([Write ''test'', Write '': '', Write ''hello world''], example_stored)"
proof -
  note a = viewHandler_redirects_or_renders
      [of "''alice''" example_fs example_templates "[]" example_request,
       THEN conjunct1, rule_format, OF loadPage_example_absent]
  note b = viewHandler_redirects_or_renders
      [of "''test''" example_stored example_templates "[]" example_request,
       THEN conjunct2, THEN conjunct1, rule_format, OF loadPage_example_stored]
  note c = viewHandler_redirects_or_renders
      [of "''alice''" example_fs example_templates "[]" example_request,
       THEN conjunct2, THEN conjunct2, rule_format,
       OF conjI [OF spec_title_alice example_fs_alice_absent]]
  from c have 1: "viewHandler example_templates [] example_request ''alice'' example_fs
       = ([Redirect ''/edit/alice'' 302], example_fs)" by simp
  from a have 3: "status (fst (viewHandler example_templates [] example_request ''alice''
       example_fs)) = Some 302" by (rule conjunct2)
  from b have 2: "viewHandler example_templates [] example_request ''test'' example_stored
       = ([Write ''test'', Write '': '', Write ''hello world''], example_stored)"
    by (simp add: renderTemplate_expand example_templates_def example_template_def)
  from 1 2 3 loadPage_example_absent loadPage_example_stored spec_title_alice
    example_fs_alice_absent
  show ?thesis by (intro conjI)
qed

text \<open>
  Claim C6. When \<open>loadPage(title)\<close> fails, the edit handler renders the template
  \<open>edit\<close> with the page whose title is the requested title and whose body is empty.
  When \<open>loadPage\<close> succeeds, it renders the template \<open>edit\<close> with the loaded page. In
  both cases the response is what the template \<open>edit.html\<close> writes for that page, and
  the file system is as before.
\<close>

theorem editHandler_blank_or_loaded:
  "(\<forall>err. loadPage title fs = Inl err \<longrightarrow>
       editHandler t w r title fs = (renderTemplate t w ''edit'' \<lparr>Title = title, Body = []\<rparr>, fs)
     \<and> (case t ''edit.html'' of
          None \<Rightarrow> True
        | Some tm \<Rightarrow>
            fst (editHandler t w r title fs) =
              w @ map Write (fst (tm \<lparr>Title = title, Body = []\<rparr>))
                @ (case snd (tm \<lparr>Title = title, Body = []\<rparr>) of
                     None \<Rightarrow> [] | Some e \<Rightarrow> [Error e 500])))
   \<and> (\<forall>p. loadPage title fs = Inr p \<longrightarrow>
       editHandler t w r title fs = (renderTemplate t w ''edit'' p, fs)
     \<and> (case t ''edit.html'' of
          None \<Rightarrow> True
        | Some tm \<Rightarrow>
            fst (editHandler t w r title fs) =
              w @ map Write (fst (tm p))
                @ (case snd (tm p) of None \<Rightarrow> [] | Some e \<Rightarrow> [Error e 500])))
   \<and> (spec_title title \<and> nodes fs (cwd fs @ [''data'', title @ ''.txt'']) = None \<longrightarrow>
       editHandler t w r title fs
         = (renderTemplate t w ''edit'' \<lparr>Title = title, Body = []\<rparr>, fs))"
proof (intro conjI allI impI)
  fix err assume "loadPage title fs = Inl err"
  then show v: "editHandler t w r title fs
      = (renderTemplate t w ''edit'' \<lparr>Title = title, Body = []\<rparr>, fs)"
    by (simp add: editHandler_def)
  show "case t ''edit.html'' of
          None \<Rightarrow> True
        | Some tm \<Rightarrow>
            fst (editHandler t w r title fs) =
              w @ map Write (fst (tm \<lparr>Title = title, Body = []\<rparr>))
                @ (case snd (tm \<lparr>Title = title, Body = []\<rparr>) of
                     None \<Rightarrow> [] | Some e \<Rightarrow> [Error e 500])"
    unfolding v by (simp add: renderTemplate_expand split: option.splits)
next
  fix p assume "loadPage title fs = Inr p"
  then show v: "editHandler t w r title fs = (renderTemplate t w ''edit'' p, fs)"
    by (simp add: editHandler_def)
  show "case t ''edit.html'' of
          None \<Rightarrow> True
        | Some tm \<Rightarrow>
            fst (editHandler t w r title fs) =
              w @ map Write (fst (tm p))
                @ (case snd (tm p) of None \<Rightarrow> [] | Some e \<Rightarrow> [Error e 500])"
    unfolding v by (simp add: renderTemplate_expand split: option.splits)
next
  assume "spec_title title \<and> nodes fs (cwd fs @ [''data'', title @ ''.txt'']) = None"
  then obtain err where "loadPage title fs = Inl err"
    using loadPage_absent by blast
  then show "editHandler t w r title fs
      = (renderTemplate t w ''edit'' \<lparr>Title = title, Body = []\<rparr>, fs)"
    by (simp add: editHandler_def)
qed

theorem editHandler_blank_or_loaded_witness:
  "loadPage ''alice'' example_fs = Inl (PathError ''open'' ''data/alice.txt'' ENOENT)
   \<and> spec_title ''alice''
   \<and> nodes example_fs (cwd example_fs @ [''data'', ''alice'' @ ''.txt'']) = None
   \<and> editHandler example_templates [] example_request ''alice'' example_fs
       = ([Write ''edit '', Write ''alice'', Write '': '', Write []], example_fs)
   \<and> loadPage ''test'' example_stored = Inr \<lparr>Title = ''test'', Body = ''hello world''\<rparr>
   \<and> editHandler example_templates [] example_request ''test'' example_stored
       = ([Write ''edit '', Write ''test'', Write '': '', Write ''hello world''], example_stored)"
proof -
  note a = editHandler_blank_or_loaded
      [of "''alice''" example_fs example_templates "[]" example_request,
       THEN conjunct1, rule_format, OF loadPage_example_absent]
  note b = editHandler_blank_or_loaded
      [of "''test''" example_stored example_templates "[]" example_request,
       THEN conjunct2, THEN conjunct1, rule_format, OF loadPage_example_stored]
  note c = editHandler_blank_or_loaded
      [of "''alice''" example_fs example_templates "[]" example_request,
       THEN conjunct2, THEN conjunct2, rule_format,
       OF conjI [OF spec_title_alice example_fs_alice_absent]]
  from a c have 1: "editHandler example_templates [] example_request ''alice'' example_fs
       = ([Write ''edit '', Write ''alice'', Write '': '', Write []], example_fs)"
    by (simp add: renderTemplate_expand example_templates_def example_edit_template_def)
  from b have 2: "editHandler example_templates [] example_request ''test'' example_stored
       = ([Write ''edit '', Write ''test'', Write '': '', Write ''hello world''], example_stored)"
    by (simp add: renderTemplate_expand example_templates_def example_edit_template_def)
  from 1 2 loadPage_example_absent loadPage_example_stored spec_title_alice
    example_fs_alice_absent
  show ?thesis by (intro conjI)
qed

text \<open>
  Claim C7. The save handler reads the form field \<open>body\<close>, builds the page of the title
  and this body and saves it, once. When \<open>save\<close> returns no error, the reply is the
  redirect \<open>302\<close> to \<open>"/view/" + title\<close>, the file system is the one \<open>save\<close> left,
  and the page can be loaded from it. When \<open>save\<close> returns an error, the reply is the
  error reply \<open>500\<close> with the message of the error, and the file system is as before.
  In both cases there is exactly one reply.
\<close>

theorem saveHandler_redirects_or_fails:
  "(\<forall>fs'. save \<lparr>Title = title, Body = FormValue r ''body''\<rparr> fs = (None, fs') \<longrightarrow>
       saveHandler w r title fs = (w @ [Redirect (''/view/'' @ title) 302], fs')
     \<and> status (fst (saveHandler [] r title fs)) = Some 302
     \<and> loadPage title fs' = Inr \<lparr>Title = title, Body = FormValue r ''body''\<rparr>)
   \<and> (\<forall>err fs'. save \<lparr>Title = title, Body = FormValue r ''body''\<rparr> fs = (Some err, fs') \<longrightarrow>
       saveHandler w r title fs = (w @ [Error (PathError_Error err) 500], fs)
     \<and> status (fst (saveHandler [] r title fs)) = Some 500
     \<and> fs' = fs)"
proof (intro conjI allI impI)
  fix fs' assume s: "save \<lparr>Title = title, Body = FormValue r ''body''\<rparr> fs = (None, fs')"
  then show "saveHandler w r title fs = (w @ [Redirect (''/view/'' @ title) 302], fs')"
    and "status (fst (saveHandler [] r title fs)) = Some 302"
    by (simp_all add: saveHandler_def bytes_of_def http_Redirect_def StatusFound_def status_def)
  from loadPage_after_save [OF s]
  show "loadPage title fs' = Inr \<lparr>Title = title, Body = FormValue r ''body''\<rparr>" by simp
next
  fix err fs'
  assume s: "save \<lparr>Title = title, Body = FormValue r ''body''\<rparr> fs = (Some err, fs')"
  from save_failed [OF s] show f: "fs' = fs" .
  from s show "saveHandler w r title fs = (w @ [Error (PathError_Error err) 500], fs)"
    and "status (fst (saveHandler [] r title fs)) = Some 500"
    unfolding f
    by (simp_all add: saveHandler_def bytes_of_def http_Error_def
        StatusInternalServerError_def status_def)
qed

theorem saveHandler_redirects_or_fails_witness:
  "save \<lparr>Title = ''test'', Body = FormValue example_request ''body''\<rparr> example_fs
     = (None, example_stored)
   \<and> saveHandler [] example_request ''test'' example_fs
       = ([Redirect ''/view/test'' 302], example_stored)
   \<and> save \<lparr>Title = ''test'', Body = FormValue example_request ''body''\<rparr> example_bare
     = (Some (PathError ''open'' ''data/test.txt'' ENOENT), example_bare)
   \<and> saveHandler [] example_request ''test'' example_bare
       = ([Error ''open data/test.txt: no such file or directory'' 500], example_bare)"
proof -
  note a = saveHandler_redirects_or_fails
      [of "''test''" example_request example_fs "[]",
       THEN conjunct1, rule_format, OF save_example_request]
  note b = saveHandler_redirects_or_fails
      [of "''test''" example_request example_bare "[]",
       THEN conjunct2, rule_format, OF save_example_bare]
  from a have 1: "saveHandler [] example_request ''test'' example_fs
       = ([Redirect ''/view/test'' 302], example_stored)" by simp
  from b have 2: "saveHandler [] example_request ''test'' example_bare
       = ([Error ''open data/test.txt: no such file or directory'' 500], example_bare)" by simp
  from 1 2 save_example_request save_example_bare show ?thesis by (intro conjI)
qed

section \<open>Start of the process and registration of the handlers\<close>

text \<open>
  Claim C9. When one of the two template files \<open>tmpl/edit.html\<close> and
  \<open>tmpl/view.html\<close> cannot be read or is not accepted by the parser, the initialisation
  of \<open>templates\<close> panics and the program is this panic: \<open>main\<close> has not run, so no
  handler is registered and no request is served. When both load and parse, the program
  is the server that \<open>main\<close> sets up with the set of exactly these two templates. There
  is no third outcome.
\<close>

theorem templates_all_or_abort:
  "(\<not> (spec_template_ok parse fs ''tmpl/edit.html'' \<and> spec_template_ok parse fs ''tmpl/view.html'')
      \<longrightarrow> (\<exists>msg. program parse fs = Inl (Panic msg)))
   \<and> (spec_template_ok parse fs ''tmpl/edit.html'' \<and> spec_template_ok parse fs ''tmpl/view.html''
      \<longrightarrow> (\<exists>t1 t2. program parse fs = Inr (main [''edit.html'' \<mapsto> t1, ''view.html'' \<mapsto> t2])))
   \<and> program parse fs =
     (case ReadFile ''tmpl/edit.html'' fs of
        Inl e \<Rightarrow> Inl (Panic (PathError_Error e))
      | Inr b1 \<Rightarrow>
          (case parse b1 of
             Inl e \<Rightarrow> Inl (Panic e)
           | Inr t1 \<Rightarrow>
               (case ReadFile ''tmpl/view.html'' fs of
                  Inl e \<Rightarrow> Inl (Panic (PathError_Error e))
                | Inr b2 \<Rightarrow>
                    (case parse b2 of
                       Inl e \<Rightarrow> Inl (Panic e)
                     | Inr t2 \<Rightarrow> Inr (main [''edit.html'' \<mapsto> t1, ''view.html'' \<mapsto> t2])))))"
  by (auto simp: program_def templates_def template_Must_def spec_template_ok_def
      split: sum.splits)

theorem templates_all_or_abort_witness:
  "spec_template_ok example_parse example_tmpl_fs ''tmpl/edit.html''
   \<and> spec_template_ok example_parse example_tmpl_fs ''tmpl/view.html''
   \<and> program example_parse example_tmpl_fs = Inr (main example_templates)
   \<and> \<not> (spec_template_ok example_parse example_fs ''tmpl/edit.html''
        \<and> spec_template_ok example_parse example_fs ''tmpl/view.html'')
   \<and> (\<exists>msg. program example_parse example_fs = Inl (Panic msg))
   \<and> program example_parse example_fs
       = Inl (Panic ''open tmpl/edit.html: no such file or directory'')
   \<and> program example_parse
        (example_tmpl_fs\<lparr>nodes := (nodes example_tmpl_fs)
           ([''wiki'', ''tmpl'', ''view.html''] \<mapsto> File ''{{'' 420)\<rparr>)
       = Inl (Panic ''template: unexpected input'')"
proof -
  note a = templates_all_or_abort [of example_parse example_fs,
      THEN conjunct1, rule_format, OF example_templates_missing]
  note b = templates_all_or_abort [of example_parse example_tmpl_fs,
      THEN conjunct2, THEN conjunct1, rule_format, OF example_templates_ok]
  have 1: "program example_parse example_tmpl_fs = Inr (main example_templates)"
    using b templates_all_or_abort [of example_parse example_tmpl_fs, THEN conjunct2, THEN conjunct2]
    by (simp add: ReadFile_def resolve_def example_tmpl_fs_def example_parse_def
        example_templates_def)
  have 2: "program example_parse example_fs
       = Inl (Panic ''open tmpl/edit.html: no such file or directory'')"
    using templates_all_or_abort [of example_parse example_fs, THEN conjunct2, THEN conjunct2]
    by (simp add: ReadFile_def resolve_def example_fs_def)
  have 3: "program example_parse
        (example_tmpl_fs\<lparr>nodes := (nodes example_tmpl_fs)
           ([''wiki'', ''tmpl'', ''view.html''] \<mapsto> File ''{{'' 420)\<rparr>)
       = Inl (Panic ''template: unexpected input'')"
    using templates_all_or_abort [of example_parse
        "example_tmpl_fs\<lparr>nodes := (nodes example_tmpl_fs)
           ([''wiki'', ''tmpl'', ''view.html''] \<mapsto> File ''{{'' 420)\<rparr>",
        THEN conjunct2, THEN conjunct2]
    by (simp add: ReadFile_def resolve_def example_tmpl_fs_def example_parse_def)
  from a 1 2 3 example_templates_ok example_templates_missing show ?thesis by (intro conjI) simp_all
qed

text \<open>
  Claim C10. The router does not look at the method of the request. \<open>main\<close> registers
  the three handlers under patterns without a method. For every method, a request whose
  path is \<open>/save/<title>\<close> with a valid title runs the save handler with this title, and
  if \<open>save\<close> returns no error the page with the body of the form is stored; likewise
  the view and the edit handler run for every method. For any path at all, what
  \<open>makeHandler\<close> does under one method is what it does under any other.
\<close>

theorem any_method_is_routed:
  assumes "spec_title title"
  shows "map fst (routes (main t)) = [''/view/'', ''/edit/'', ''/save/'']
     \<and> map (pattern_method \<circ> fst) (routes (main t)) = [None, None, None]
     \<and> map snd (routes (main t))
         = [makeHandler (viewHandler t), makeHandler (editHandler t), makeHandler saveHandler]
     \<and> makeHandler (viewHandler t) w \<lparr>Method = m, URL_Path = ''/view/'' @ title, Form = f\<rparr> fs
         = viewHandler t w \<lparr>Method = m, URL_Path = ''/view/'' @ title, Form = f\<rparr> title fs
     \<and> makeHandler (editHandler t) w \<lparr>Method = m, URL_Path = ''/edit/'' @ title, Form = f\<rparr> fs
         = editHandler t w \<lparr>Method = m, URL_Path = ''/edit/'' @ title, Form = f\<rparr> title fs
     \<and> makeHandler saveHandler w \<lparr>Method = m, URL_Path = ''/save/'' @ title, Form = f\<rparr> fs
         = saveHandler w \<lparr>Method = m, URL_Path = ''/save/'' @ title, Form = f\<rparr> title fs
     \<and> makeHandler fn w \<lparr>Method = m, URL_Path = p, Form = f\<rparr> fs
         = makeHandler (\<lambda>w r. fn w (r\<lparr>Method := m\<rparr>)) w
             \<lparr>Method = m', URL_Path = p, Form = f\<rparr> fs
     \<and> (case save \<lparr>Title = title, Body = FormValue \<lparr>Method = m, URL_Path = ''/save/'' @ title,
                                                    Form = f\<rparr> ''body''\<rparr> fs of
          (Some err, fs') \<Rightarrow> True
        | (None, fs') \<Rightarrow>
            snd (makeHandler saveHandler w
                   \<lparr>Method = m, URL_Path = ''/save/'' @ title, Form = f\<rparr> fs) = fs'
          \<and> loadPage title fs'
              = Inr \<lparr>Title = title,
                     Body = FormValue \<lparr>Method = m, URL_Path = ''/save/'' @ title,
                                       Form = f\<rparr> ''body''\<rparr>)"
proof -
  let ?r = "\<lambda>verb. \<lparr>Method = m, URL_Path = ''/'' @ verb @ ''/'' @ title, Form = f\<rparr>"
  have routed: "\<And>verb fn. verb \<in> {''view'', ''edit'', ''save''} \<Longrightarrow>
      makeHandler fn w (?r verb) fs = fn w (?r verb) title fs"
    using spec_route_of_title [OF assms] by (simp only: makeHandler_routes Request.simps if_True)
  have 1: "map fst (routes (main t)) = [''/view/'', ''/edit/'', ''/save/'']"
    and 2: "map (pattern_method \<circ> fst) (routes (main t)) = [None, None, None]"
    and 3: "map snd (routes (main t))
         = [makeHandler (viewHandler t), makeHandler (editHandler t), makeHandler saveHandler]"
    by (simp_all add: main_def pattern_method_def)
  have 4: "makeHandler (viewHandler t) w \<lparr>Method = m, URL_Path = ''/view/'' @ title, Form = f\<rparr> fs
         = viewHandler t w \<lparr>Method = m, URL_Path = ''/view/'' @ title, Form = f\<rparr> title fs"
    using routed [of "''view''" "viewHandler t"] by simp
  have 5: "makeHandler (editHandler t) w \<lparr>Method = m, URL_Path = ''/edit/'' @ title, Form = f\<rparr> fs
         = editHandler t w \<lparr>Method = m, URL_Path = ''/edit/'' @ title, Form = f\<rparr> title fs"
    using routed [of "''edit''" "editHandler t"] by simp
  have 6: "makeHandler saveHandler w \<lparr>Method = m, URL_Path = ''/save/'' @ title, Form = f\<rparr> fs
         = saveHandler w \<lparr>Method = m, URL_Path = ''/save/'' @ title, Form = f\<rparr> title fs"
    using routed [of "''save''" saveHandler] by simp
  have 7: "makeHandler fn w \<lparr>Method = m, URL_Path = p, Form = f\<rparr> fs
         = makeHandler (\<lambda>w r. fn w (r\<lparr>Method := m\<rparr>)) w
             \<lparr>Method = m', URL_Path = p, Form = f\<rparr> fs"
    by (simp add: makeHandler_routes http_NotFound_def)
  have 8: "(case save \<lparr>Title = title, Body = FormValue \<lparr>Method = m, URL_Path = ''/save/'' @ title,
                                                    Form = f\<rparr> ''body''\<rparr> fs of
          (Some err, fs') \<Rightarrow> True
        | (None, fs') \<Rightarrow>
            snd (makeHandler saveHandler w
                   \<lparr>Method = m, URL_Path = ''/save/'' @ title, Form = f\<rparr> fs) = fs'
          \<and> loadPage title fs'
              = Inr \<lparr>Title = title,
                     Body = FormValue \<lparr>Method = m, URL_Path = ''/save/'' @ title,
                                       Form = f\<rparr> ''body''\<rparr>)"
    unfolding 6
    using loadPage_after_save
      [of "\<lparr>Title = title, Body = FormValue \<lparr>Method = m, URL_Path = ''/save/'' @ title,
                                                    Form = f\<rparr> ''body''\<rparr>" fs]
    by (auto simp: saveHandler_def bytes_of_def split: prod.splits option.splits)
  from 1 2 3 4 5 6 7 8 show ?thesis by (intro conjI)
qed

theorem any_method_is_routed_witness:
  "spec_title ''test''
   \<and> makeHandler saveHandler []
        \<lparr>Method = ''GET'', URL_Path = ''/save/test'', Form = [''body'' \<mapsto> [''hello world'']]\<rparr>
        example_fs
       = ([Redirect ''/view/test'' 302], example_stored)
   \<and> makeHandler (viewHandler example_templates) []
        \<lparr>Method = ''DELETE'', URL_Path = ''/view/test'', Form = Map.empty\<rparr> example_stored
       = ([Write ''test'', Write '': '', Write ''hello world''], example_stored)"
proof -
  note t = any_method_is_routed [OF spec_title_test]
  from t [of example_templates "[]" "''GET''" "[''body'' \<mapsto> [''hello world'']]" example_fs]
  have 1: "makeHandler saveHandler []
        \<lparr>Method = ''GET'', URL_Path = ''/save/test'', Form = [''body'' \<mapsto> [''hello world'']]\<rparr>
        example_fs
       = ([Redirect ''/view/test'' 302], example_stored)"
    by (simp add: saveHandler_def bytes_of_def FormValue_def save_example http_Redirect_def
        StatusFound_def)
  from t [of example_templates "[]" "''DELETE''" Map.empty example_stored]
  have 2: "makeHandler (viewHandler example_templates) []
        \<lparr>Method = ''DELETE'', URL_Path = ''/view/test'', Form = Map.empty\<rparr> example_stored
       = ([Write ''test'', Write '': '', Write ''hello world''], example_stored)"
    by (simp add: viewHandler_def loadPage_example_stored renderTemplate_expand
        example_templates_def example_template_def)
  from 1 2 spec_title_test show ?thesis by (intro conjI)
qed

end
